theory Spec2Isabelle
  imports Main
begin

section \<open>Lane tag parsing (lanes/core.py)\<close>

text \<open>
  A shallow embedding of \<^verbatim>\<open>lanes/core.py\<close>: the three enumerations, the
  \<^verbatim>\<open>Lane\<close> and \<^verbatim>\<open>Road\<close> dataclasses, \<^verbatim>\<open>Lane.from_structure\<close> and
  \<^verbatim>\<open>Road.parse\<close>.

  Text is a HOL \<open>string\<close>; a character stands for the code point of the same number
  (0 to 255). Text with code points above 255 is outside the model. A \<^verbatim>\<open>dict[str, str]\<close>
  is a map from strings to strings. A raised exception is the \<open>Inl\<close> branch of a sum.
  The interpreter that runs the module is a parameter of \<open>parse_on\<close>; \<open>parse\<close> is a
  call on the interpreter \<open>cpython\<close>.
\<close>

subsection \<open>Exceptions\<close>

text \<open>
  The module defines no exception class of its own. What it can raise are built-in
  exceptions of the interpreter: \<^verbatim>\<open>ValueError\<close> (an enumeration called on a text that is
  not one of its values, and \<^verbatim>\<open>int\<close> called on a text it does not accept),
  \<^verbatim>\<open>KeyError\<close> (subscripting a dictionary with a key it does not hold; the exception
  carries the key), \<^verbatim>\<open>OverflowError\<close> (a list repeated a number of times that is
  not an index-sized integer) and \<^verbatim>\<open>MemoryError\<close> (a list repeated to a length for
  which there is no memory).
\<close>

datatype py_error = ValueError | KeyError string | OverflowError | MemoryError

subsection \<open>Vocabulary\<close>

datatype DrivingSide = RIGHT | LEFT

datatype Direction = FORWARD | BACKWARD

datatype LaneType = SIDEWALK | CYCLEWAY | DRIVEWAY

fun DrivingSide_value :: "DrivingSide \<Rightarrow> string" where
  "DrivingSide_value RIGHT = ''right''"
| "DrivingSide_value LEFT = ''left''"

fun Direction_value :: "Direction \<Rightarrow> string" where
  "Direction_value FORWARD = ''forward''"
| "Direction_value BACKWARD = ''backward''"

fun LaneType_value :: "LaneType \<Rightarrow> string" where
  "LaneType_value SIDEWALK = ''sidewalk''"
| "LaneType_value CYCLEWAY = ''cycleway''"
| "LaneType_value DRIVEWAY = ''driveway''"

text \<open>
  Calling an enumeration class on a value, \<^verbatim>\<open>LaneType(v)\<close>, returns the member that
  has this value and raises \<^verbatim>\<open>ValueError\<close> when there is none. The members are
  searched in the order of their declaration.
\<close>

definition Direction_call :: "string \<Rightarrow> py_error + Direction" where
  "Direction_call v =
     (case find (\<lambda>m. Direction_value m = v) [FORWARD, BACKWARD] of
        None \<Rightarrow> Inl ValueError
      | Some m \<Rightarrow> Inr m)"

definition LaneType_call :: "string \<Rightarrow> py_error + LaneType" where
  "LaneType_call v =
     (case find (\<lambda>m. LaneType_value m = v) [SIDEWALK, CYCLEWAY, DRIVEWAY] of
        None \<Rightarrow> Inl ValueError
      | Some m \<Rightarrow> Inr m)"

text \<open>
  The dataclass \<^verbatim>\<open>Lane\<close>. Its first field is \<^verbatim>\<open>type_\<close> in the source; a name
  cannot end with an underscore here, so it is \<open>type'\<close>. The generated \<^verbatim>\<open>__eq__\<close>
  compares the two fields, as equality of records does. \<open>Lane t d\<close> is the call of the
  constructor, \<^verbatim>\<open>Lane(t, d)\<close>.
\<close>

record Lane =
  type' :: LaneType
  direction :: Direction

abbreviation Lane :: "LaneType \<Rightarrow> Direction \<Rightarrow> Lane" where
  "Lane t d \<equiv> \<lparr>type' = t, direction = d\<rparr>"

subsection \<open>Dictionaries\<close>

type_synonym Tags = "string \<rightharpoonup> string"

text \<open>
  Three read operations on a dictionary occur in the module: \<^verbatim>\<open>k in d\<close>,
  \<^verbatim>\<open>d.get(k)\<close> (\<^verbatim>\<open>None\<close> for a missing key, which is the map's own
  \<open>None\<close>) and \<^verbatim>\<open>d[k]\<close>, which raises \<^verbatim>\<open>KeyError\<close> for a missing key.
\<close>

definition contains :: "Tags \<Rightarrow> string \<Rightarrow> bool" where
  "contains d k = (d k \<noteq> None)"

definition getitem :: "Tags \<Rightarrow> string \<Rightarrow> py_error + string" where
  "getitem d k = (case d k of None \<Rightarrow> Inl (KeyError k) | Some v \<Rightarrow> Inr v)"

subsection \<open>Lane.from_structure\<close>

text \<open>
  \<^verbatim>\<open>cls(LaneType(structure["type"]), Direction(structure["direction"]))\<close>:
  the arguments are evaluated from left to right, so the first of the four steps that
  raises decides the exception.
\<close>

definition from_structure :: "Tags \<Rightarrow> py_error + Lane" where
  "from_structure struct =
     (case getitem struct ''type'' of
        Inl e \<Rightarrow> Inl e
      | Inr t \<Rightarrow>
     (case LaneType_call t of
        Inl e \<Rightarrow> Inl e
      | Inr ty \<Rightarrow>
     (case getitem struct ''direction'' of
        Inl e \<Rightarrow> Inl e
      | Inr d \<Rightarrow>
     (case Direction_call d of
        Inl e \<Rightarrow> Inl e
      | Inr dir \<Rightarrow> Inr (Lane ty dir)))))"

subsection \<open>The interpreter\<close>

text \<open>
  What \<^verbatim>\<open>int\<close> on a text and the repetition of a list raise depends on three
  properties of the interpreter that runs the module. They are parameters of the model:
  \<^item> \<open>maxsize\<close> is \<^verbatim>\<open>sys.maxsize\<close>: the index-sized integers are those from
    \<open>- maxsize - 1\<close> to \<open>maxsize\<close>;
  \<^item> \<open>max_str_digits\<close> is \<^verbatim>\<open>sys.get_int_max_str_digits()\<close>, the limit on the number of
    digits of an integer text, where 0 stands for no limit (an interpreter older than the
    limit behaves in this way);
  \<^item> \<open>capacity\<close> is the length of the longest list for which memory is left. It is
    consulted where the module asks for a list whose length is the count of lanes, the
    repetition. The lists of the \<^verbatim>\<open>return\<close> statement are at most three elements
    longer; where a theorem promises that a call with \<open>n\<close> lanes returns, it assumes
    room for \<open>n + 3\<close> elements.
\<close>

record interp =
  maxsize :: int
  max_str_digits :: nat
  capacity :: nat

text \<open>
  A 64-bit CPython with the default limit of 4300 digits, on a machine where memory is
  left for every list that the allocator of lists accepts by itself (eight bytes for each
  element, at most \<open>maxsize\<close> bytes).
\<close>

definition cpython :: interp where
  "cpython = \<lparr>maxsize = 2 ^ 63 - 1, max_str_digits = 4300, capacity = (2 ^ 63 - 1) div 8\<rparr>"

subsection \<open>The built-in int on text\<close>

text \<open>
  \<^verbatim>\<open>int(s)\<close> for a text \<open>s\<close>, base ten: white space is skipped at both ends; one
  sign may come first; then decimal digits, where a single underscore may stand between
  two digits; anything else raises \<^verbatim>\<open>ValueError\<close>. White space is the six ASCII
  characters tab, line feed, vertical tab, form feed, carriage return and space, and
  of the code points from 128 to 255 the two Unicode spaces 133 and 160. The only decimal
  digits up to code point 255 are \<open>0\<close> to \<open>9\<close>. Python integers are unbounded, hence the
  result is an \<open>int\<close>.
\<close>

definition py_isspace :: "char \<Rightarrow> bool" where
  "py_isspace c = ((of_char c :: nat) \<in> set [9, 10, 11, 12, 13, 32, 133, 160])"

definition digit_value :: "char \<Rightarrow> nat option" where
  "digit_value c =
     (let k = (of_char c :: nat) in if 48 \<le> k \<and> k \<le> 57 then Some (k - 48) else None)"

text \<open>
  \<open>scan_digits cs prev_us acc digits\<close> reads digits and underscores from the front of
  \<open>cs\<close>; \<open>prev_us\<close> says that the character just read was an underscore, \<open>acc\<close> is the
  value of the digits read so far and \<open>digits\<close> their number (leading zeros count,
  underscores do not). It stops at the first other character and returns the value, the
  number of digits and the rest of the text, or \<open>None\<close> for two underscores in a row or
  an underscore at the end of the digits.
\<close>

fun scan_digits :: "string \<Rightarrow> bool \<Rightarrow> nat \<Rightarrow> nat \<Rightarrow> (nat \<times> nat \<times> string) option" where
  "scan_digits [] prev_us acc digits = (if prev_us then None else Some (acc, digits, []))"
| "scan_digits (c # cs) prev_us acc digits =
     (case digit_value c of
        Some d \<Rightarrow> scan_digits cs False (10 * acc + d) (Suc digits)
      | None \<Rightarrow>
          if c = CHR ''_'' then (if prev_us then None else scan_digits cs True acc digits)
          else if prev_us then None
          else Some (acc, digits, c # cs))"

definition strip_sign :: "string \<Rightarrow> bool \<times> string" where
  "strip_sign s =
     (case s of
        [] \<Rightarrow> (False, [])
      | c # cs \<Rightarrow>
          if c = CHR ''+'' then (False, cs)
          else if c = CHR ''-'' then (True, cs)
          else (False, c # cs))"

text \<open>
  The limit on the digits: a text of more than 640 digits is refused when the limit is
  set and the number of its digits is above the limit. (The interpreter accepts no limit
  between 1 and 639.)
\<close>

definition digits_exceed :: "interp \<Rightarrow> nat \<Rightarrow> bool" where
  "digits_exceed ip digits =
     (640 < digits \<and> 0 < max_str_digits ip \<and> max_str_digits ip < digits)"

definition py_int :: "interp \<Rightarrow> string \<Rightarrow> py_error + int" where
  "py_int ip s =
     (let (neg, body) = strip_sign (dropWhile py_isspace s) in
      if take 1 body = ''_'' then Inl ValueError
      else
        (case scan_digits body False 0 0 of
           None \<Rightarrow> Inl ValueError
         | Some (n, digits, rest) \<Rightarrow>
             if digits_exceed ip digits then Inl ValueError
             else if length rest = length body then Inl ValueError
             else if dropWhile py_isspace rest \<noteq> [] then Inl ValueError
             else Inr (if neg then - int n else int n)))"

subsection \<open>Repeating a list\<close>

text \<open>
  \<^verbatim>\<open>xs * n\<close> for a list and an integer. The count must be an index-sized integer,
  otherwise \<^verbatim>\<open>OverflowError\<close> is raised, for a count of either sign. A negative count
  is taken as 0. \<^verbatim>\<open>MemoryError\<close> is raised when the length of the result is not
  index-sized, and when there is no memory for a list of this length. Otherwise the
  result is \<open>n\<close> copies of \<open>xs\<close> in a row.
\<close>

definition list_mul :: "interp \<Rightarrow> 'a list \<Rightarrow> int \<Rightarrow> py_error + 'a list" where
  "list_mul ip xs n =
     (if n < - maxsize ip - 1 \<or> maxsize ip < n then Inl OverflowError
      else
        (let k = nat n in
         if 0 < k \<and> maxsize ip div int k < int (length xs) then Inl MemoryError
         else if length xs * k = 0 then Inr []
         else if capacity ip < length xs * k then Inl MemoryError
         else Inr (concat (replicate k xs))))"

subsection \<open>Road.parse\<close>

record Road =
  tags :: Tags

text \<open>
  The frame of one call of \<^verbatim>\<open>parse\<close>: the object \<^verbatim>\<open>self\<close> and the five local
  lists. Every statement of the body is a function on frames, so that an assignment to a
  local, or a change of \<^verbatim>\<open>self\<close>, is visible in the frame it returns.
\<close>

record frame =
  self :: Road
  main_lanes :: "Lane list"
  sidewalks_right :: "Lane list"
  sidewalks_left :: "Lane list"
  cycleway_right :: "Lane list"
  cycleway_left :: "Lane list"

definition enter :: "Road \<Rightarrow> frame" where
  "enter r =
     \<lparr>self = r, main_lanes = [], sidewalks_right = [], sidewalks_left = [],
      cycleway_right = [], cycleway_left = []\<rparr>"

text \<open>
  The three \<^verbatim>\<open>if\<close> statements. Only the first can raise: \<^verbatim>\<open>int\<close> may refuse the
  text, and the repetition may refuse the count. It returns the exception, if any, with
  the frame as it is at that moment; the assignment to \<^verbatim>\<open>main_lanes\<close> has then not
  taken place.
\<close>

definition driveway_rule :: "interp \<Rightarrow> frame \<Rightarrow> py_error option \<times> frame" where
  "driveway_rule ip f =
     (if contains (tags (self f)) ''lanes'' then
        if tags (self f) ''oneway'' = Some ''yes'' then
          (case getitem (tags (self f)) ''lanes'' of
             Inl e \<Rightarrow> (Some e, f)
           | Inr v \<Rightarrow>
               (case py_int ip v of
                  Inl e \<Rightarrow> (Some e, f)
                | Inr n \<Rightarrow>
                    (case list_mul ip [Lane DRIVEWAY FORWARD] n of
                       Inl e \<Rightarrow> (Some e, f)
                     | Inr ms \<Rightarrow> (None, f\<lparr>main_lanes := ms\<rparr>))))
        else (None, f)
      else (None, f))"

definition sidewalk_rule :: "frame \<Rightarrow> frame" where
  "sidewalk_rule f =
     (if tags (self f) ''sidewalk'' = Some ''both'' then
        f\<lparr>sidewalks_left := [Lane SIDEWALK BACKWARD],
          sidewalks_right := [Lane SIDEWALK FORWARD]\<rparr>
      else f)"

definition cycleway_rule :: "frame \<Rightarrow> frame" where
  "cycleway_rule f =
     (if tags (self f) ''cycleway:left'' = Some ''lane'' then
        f\<lparr>cycleway_left := [Lane CYCLEWAY FORWARD]\<rparr>
      else f)"

text \<open>The statements before \<^verbatim>\<open>return\<close>, in order.\<close>

definition body_on :: "interp \<Rightarrow> frame \<Rightarrow> py_error option \<times> frame" where
  "body_on ip f =
     (case driveway_rule ip f of
        (Some e, f1) \<Rightarrow> (Some e, f1)
      | (None, f1) \<Rightarrow> (None, cycleway_rule (sidewalk_rule f1)))"

text \<open>The expression of the \<^verbatim>\<open>return\<close> statement.\<close>

definition assemble :: "frame \<Rightarrow> Lane list" where
  "assemble f =
     sidewalks_left f @ cycleway_left f @ main_lanes f @ cycleway_right f @ sidewalks_right f"

text \<open>
  One call of \<^verbatim>\<open>parse\<close> on a given interpreter: what it returns or raises, and the
  \<^verbatim>\<open>Road\<close> it leaves behind.
\<close>

definition parse_run_on :: "interp \<Rightarrow> Road \<Rightarrow> (py_error + Lane list) \<times> Road" where
  "parse_run_on ip r =
     (case body_on ip (enter r) of
        (Some e, f) \<Rightarrow> (Inl e, self f)
      | (None, f) \<Rightarrow> (Inr (assemble f), self f))"

definition parse_on :: "interp \<Rightarrow> Road \<Rightarrow> py_error + Lane list" where
  "parse_on ip r = fst (parse_run_on ip r)"

text \<open>The same on the interpreter \<open>cpython\<close>.\<close>

definition body :: "frame \<Rightarrow> py_error option \<times> frame" where
  "body f = body_on cpython f"

definition parse_run :: "Road \<Rightarrow> (py_error + Lane list) \<times> Road" where
  "parse_run r = parse_run_on cpython r"

definition parse :: "Road \<Rightarrow> py_error + Lane list" where
  "parse r = parse_on cpython r"

subsection \<open>Reading a cross-section\<close>

text \<open>The lanes of one designation, in the order in which they occur.\<close>

definition lanes_of_type :: "LaneType \<Rightarrow> Lane list \<Rightarrow> Lane list" where
  "lanes_of_type ty ls = filter (\<lambda>l. type' l = ty) ls"

subsection \<open>The rules as the specification words them\<close>

text \<open>
  The specification (section 4.2, rules 2 to 4) gives each category of lanes beside the
  carriageway as a rule on the tags. These four definitions follow its words, not the
  source; the theorems on \<open>parse\<close> compare the source with them. A sidewalk on each side
  when \<^verbatim>\<open>sidewalk\<close> is \<^verbatim>\<open>"both"\<close>, backward on the left and forward on the right;
  one forward cycleway on the left when \<^verbatim>\<open>cycleway:left\<close> is \<^verbatim>\<open>"lane"\<close>; nothing on
  the right cycleway.
\<close>

definition spec_left_sidewalk :: "Tags \<Rightarrow> Lane list" where
  "spec_left_sidewalk t = (if t ''sidewalk'' = Some ''both'' then [Lane SIDEWALK BACKWARD] else [])"

definition spec_right_sidewalk :: "Tags \<Rightarrow> Lane list" where
  "spec_right_sidewalk t = (if t ''sidewalk'' = Some ''both'' then [Lane SIDEWALK FORWARD] else [])"

definition spec_left_cycleway :: "Tags \<Rightarrow> Lane list" where
  "spec_left_cycleway t = (if t ''cycleway:left'' = Some ''lane'' then [Lane CYCLEWAY FORWARD] else [])"

definition spec_right_cycleway :: "Tags \<Rightarrow> Lane list" where
  "spec_right_cycleway t = []"

text \<open>
  The specification's "can be parsed as a non-negative integer", for the text of the
  \<^verbatim>\<open>lanes\<close> tag.
\<close>

definition nonneg_int_text :: "interp \<Rightarrow> string \<Rightarrow> bool" where
  "nonneg_int_text ip s = (case py_int ip s of Inl e \<Rightarrow> False | Inr n \<Rightarrow> 0 \<le> n)"

section \<open>Properties of Lane.from_structure\<close>

subsection \<open>The enumeration calls\<close>

lemma LaneType_call_value: "LaneType_call (LaneType_value ty) = Inr ty"
  by (cases ty) (simp_all add: LaneType_call_def)

lemma Direction_call_value: "Direction_call (Direction_value d) = Inr d"
  by (cases d) (simp_all add: Direction_call_def)

lemma LaneType_call_bad:
  "v \<notin> set [''sidewalk'', ''cycleway'', ''driveway''] \<Longrightarrow> LaneType_call v = Inl ValueError"
  by (auto simp: LaneType_call_def)

lemma Direction_call_bad:
  "v \<notin> set [''forward'', ''backward''] \<Longrightarrow> Direction_call v = Inl ValueError"
  by (auto simp: Direction_call_def)

lemma LaneType_call_error: "LaneType_call v = Inl e \<Longrightarrow> e = ValueError"
  by (simp add: LaneType_call_def split: if_splits)

lemma Direction_call_error: "Direction_call v = Inl e \<Longrightarrow> e = ValueError"
  by (simp add: Direction_call_def split: if_splits)

lemma LaneType_call_good:
  "LaneType_call v = Inr ty \<Longrightarrow> v \<in> set [''sidewalk'', ''cycleway'', ''driveway'']"
  by (simp add: LaneType_call_def split: if_splits)

lemma Direction_call_good:
  "Direction_call v = Inr d \<Longrightarrow> v \<in> set [''forward'', ''backward'']"
  by (simp add: Direction_call_def split: if_splits)

subsection \<open>Structures that hold both keys\<close>

text \<open>
  Claim C5. Let the structure hold a text under \<^verbatim>\<open>"type"\<close> and a text under
  \<^verbatim>\<open>"direction"\<close>. If the two texts are the values of a lane type and of a direction,
  \<^verbatim>\<open>from_structure\<close> returns the lane built directly from these two members; for
  \<^verbatim>\<open>"cycleway"\<close> and \<^verbatim>\<open>"forward"\<close> this is \<open>Lane CYCLEWAY FORWARD\<close>. If the type
  text is none of \<^verbatim>\<open>"sidewalk"\<close>, \<^verbatim>\<open>"cycleway"\<close>, \<^verbatim>\<open>"driveway"\<close>, or the
  direction text is none of \<^verbatim>\<open>"forward"\<close>, \<^verbatim>\<open>"backward"\<close>, it raises
  \<^verbatim>\<open>ValueError\<close>, the exception the specification calls InvalidTagValue.
\<close>

theorem from_structure_contract:
  assumes "struct ''type'' = Some t" and "struct ''direction'' = Some d"
  shows "(\<forall>ty dir. t = LaneType_value ty \<and> d = Direction_value dir \<longrightarrow>
            from_structure struct = Inr (Lane ty dir)) \<and>
         (t \<notin> set [''sidewalk'', ''cycleway'', ''driveway''] \<or>
          d \<notin> set [''forward'', ''backward''] \<longrightarrow>
            from_structure struct = Inl ValueError) \<and>
         (t = ''cycleway'' \<and> d = ''forward'' \<longrightarrow>
            from_structure struct = Inr (Lane CYCLEWAY FORWARD))"
proof (intro conjI allI impI)
  fix ty dir
  assume "t = LaneType_value ty \<and> d = Direction_value dir"
  with assms show "from_structure struct = Inr (Lane ty dir)"
    by (simp add: from_structure_def getitem_def LaneType_call_value Direction_call_value)
next
  assume bad: "t \<notin> set [''sidewalk'', ''cycleway'', ''driveway''] \<or>
    d \<notin> set [''forward'', ''backward'']"
  show "from_structure struct = Inl ValueError"
  proof (cases "LaneType_call t")
    case (Inl e)
    with assms show ?thesis
      by (simp add: from_structure_def getitem_def LaneType_call_error)
  next
    case (Inr ty)
    with bad have "Direction_call d = Inl ValueError"
      using LaneType_call_good Direction_call_bad by blast
    with Inr assms show ?thesis
      by (simp add: from_structure_def getitem_def)
  qed
next
  assume "t = ''cycleway'' \<and> d = ''forward''"
  with assms show "from_structure struct = Inr (Lane CYCLEWAY FORWARD)"
    by (simp add: from_structure_def getitem_def LaneType_call_def Direction_call_def)
qed

theorem from_structure_contract_witness:
  "from_structure [''type'' \<mapsto> ''cycleway'', ''direction'' \<mapsto> ''forward'']
     = Inr (Lane CYCLEWAY FORWARD) \<and>
   from_structure [''type'' \<mapsto> ''driveway'', ''direction'' \<mapsto> ''backward'']
     = Inr (Lane DRIVEWAY BACKWARD) \<and>
   from_structure [''type'' \<mapsto> ''Cycleway'', ''direction'' \<mapsto> ''forward'']
     = Inl ValueError \<and>
   from_structure [''type'' \<mapsto> ''sidewalk'', ''direction'' \<mapsto> ''left'']
     = Inl ValueError"
proof (intro conjI)
  show "from_structure [''type'' \<mapsto> ''cycleway'', ''direction'' \<mapsto> ''forward'']
     = Inr (Lane CYCLEWAY FORWARD)"
    using from_structure_contract
      [of "[''type'' \<mapsto> ''cycleway'', ''direction'' \<mapsto> ''forward'']" "''cycleway''" "''forward''"]
    by simp
  have "\<forall>ty dir. ''driveway'' = LaneType_value ty \<and> ''backward'' = Direction_value dir \<longrightarrow>
      from_structure [''type'' \<mapsto> ''driveway'', ''direction'' \<mapsto> ''backward'']
        = Inr (Lane ty dir)"
    using from_structure_contract
      [of "[''type'' \<mapsto> ''driveway'', ''direction'' \<mapsto> ''backward'']"
          "''driveway''" "''backward''"]
    by simp
  from this [THEN spec, THEN spec, of DRIVEWAY BACKWARD]
  show "from_structure [''type'' \<mapsto> ''driveway'', ''direction'' \<mapsto> ''backward'']
     = Inr (Lane DRIVEWAY BACKWARD)"
    by simp
  show "from_structure [''type'' \<mapsto> ''Cycleway'', ''direction'' \<mapsto> ''forward'']
     = Inl ValueError"
    using from_structure_contract
      [of "[''type'' \<mapsto> ''Cycleway'', ''direction'' \<mapsto> ''forward'']" "''Cycleway''" "''forward''"]
    by simp
  show "from_structure [''type'' \<mapsto> ''sidewalk'', ''direction'' \<mapsto> ''left'']
     = Inl ValueError"
    using from_structure_contract
      [of "[''type'' \<mapsto> ''sidewalk'', ''direction'' \<mapsto> ''left'']" "''sidewalk''" "''left''"]
    by simp
qed

subsection \<open>Structures that lack a key\<close>

text \<open>
  Claim C9 says that a structure without \<^verbatim>\<open>"type"\<close> or without \<^verbatim>\<open>"direction"\<close>
  fails with \<^verbatim>\<open>KeyError\<close> and never with InvalidTagValue. The type text is looked
  up and converted before the direction is looked up: a structure that holds an
  unrecognized type and no direction raises \<^verbatim>\<open>ValueError\<close>.
\<close>

theorem from_structure_missing_direction_counterexample:
  "[''type'' \<mapsto> ''bogus''] ''direction'' = None \<and>
   from_structure [''type'' \<mapsto> ''bogus''] = Inl ValueError \<and>
   from_structure [''type'' \<mapsto> ''bogus''] \<noteq> Inl (KeyError ''direction'')"
  by (simp add: from_structure_def getitem_def LaneType_call_def)

text \<open>
  Claim C9, amended. Without \<^verbatim>\<open>"type"\<close> the call raises \<^verbatim>\<open>KeyError\<close> for
  \<^verbatim>\<open>"type"\<close>. With a recognized type and without \<^verbatim>\<open>"direction"\<close> it raises
  \<^verbatim>\<open>KeyError\<close> for \<^verbatim>\<open>"direction"\<close>. It raises \<^verbatim>\<open>ValueError\<close> exactly when
  \<^verbatim>\<open>"type"\<close> is present and either its text is unrecognized (whether or not there
  is a direction), or the direction is present and its text is unrecognized.
\<close>

theorem from_structure_failures:
  "(struct ''type'' = None \<longrightarrow> from_structure struct = Inl (KeyError ''type'')) \<and>
   (\<forall>ty. struct ''type'' = Some (LaneType_value ty) \<and> struct ''direction'' = None \<longrightarrow>
      from_structure struct = Inl (KeyError ''direction'')) \<and>
   (from_structure struct = Inl ValueError \<longleftrightarrow>
      (\<exists>t. struct ''type'' = Some t \<and>
         (t \<notin> set [''sidewalk'', ''cycleway'', ''driveway''] \<or>
          (\<exists>d. struct ''direction'' = Some d \<and> d \<notin> set [''forward'', ''backward'']))))"
proof (intro conjI allI impI)
  assume "struct ''type'' = None"
  then show "from_structure struct = Inl (KeyError ''type'')"
    by (simp add: from_structure_def getitem_def)
next
  fix ty
  assume "struct ''type'' = Some (LaneType_value ty) \<and> struct ''direction'' = None"
  then show "from_structure struct = Inl (KeyError ''direction'')"
    by (simp add: from_structure_def getitem_def LaneType_call_value)
next
  show "from_structure struct = Inl ValueError \<longleftrightarrow>
      (\<exists>t. struct ''type'' = Some t \<and>
         (t \<notin> set [''sidewalk'', ''cycleway'', ''driveway''] \<or>
          (\<exists>d. struct ''direction'' = Some d \<and> d \<notin> set [''forward'', ''backward''])))"
  proof (cases "struct ''type''")
    case None
    then show ?thesis by (simp add: from_structure_def getitem_def)
  next
    case (Some t)
    show ?thesis
    proof (cases "LaneType_call t")
      case (Inl e)
      then have "e = ValueError" by (rule LaneType_call_error)
      moreover from Inl have "t \<notin> set [''sidewalk'', ''cycleway'', ''driveway'']"
        by (auto simp: LaneType_call_def)
      ultimately show ?thesis using Some Inl
        by (simp add: from_structure_def getitem_def)
    next
      case (Inr ty)
      then have good: "t \<in> set [''sidewalk'', ''cycleway'', ''driveway'']"
        by (rule LaneType_call_good)
      show ?thesis
      proof (cases "struct ''direction''")
        case None
        with Some Inr good show ?thesis
          by (simp add: from_structure_def getitem_def)
      next
        case d: (Some d)
        show ?thesis
        proof (cases "Direction_call d")
          case (Inl e)
          then have "e = ValueError" by (rule Direction_call_error)
          moreover from Inl have "d \<notin> set [''forward'', ''backward'']"
            by (auto simp: Direction_call_def)
          ultimately show ?thesis using Some Inr d Inl
            by (simp add: from_structure_def getitem_def)
        next
          case dir: (Inr dir)
          then have "d \<in> set [''forward'', ''backward'']"
            by (rule Direction_call_good)
          with Some Inr d dir good show ?thesis
            by (simp add: from_structure_def getitem_def)
        qed
      qed
    qed
  qed
qed

theorem from_structure_failures_witness:
  "from_structure [''direction'' \<mapsto> ''forward''] = Inl (KeyError ''type'') \<and>
   from_structure [''type'' \<mapsto> ''driveway''] = Inl (KeyError ''direction'') \<and>
   from_structure [''type'' \<mapsto> ''bogus''] = Inl ValueError"
proof (intro conjI)
  show "from_structure [''direction'' \<mapsto> ''forward''] = Inl (KeyError ''type'')"
    using from_structure_failures [of "[''direction'' \<mapsto> ''forward'']"] by simp
  show "from_structure [''type'' \<mapsto> ''driveway''] = Inl (KeyError ''direction'')"
    using from_structure_failures [of "[''type'' \<mapsto> ''driveway'']", THEN conjunct2, THEN conjunct1,
      THEN spec, of DRIVEWAY]
    by simp
  show "from_structure [''type'' \<mapsto> ''bogus''] = Inl ValueError"
    using from_structure_failures [of "[''type'' \<mapsto> ''bogus'']"] by simp
qed

section \<open>Properties of Road.parse\<close>

subsection \<open>The built-in operations\<close>

lemmas py_int_unfold = py_int_def strip_sign_def py_isspace_def digit_value_def digits_exceed_def

lemmas spec_rule_unfold = spec_left_sidewalk_def spec_right_sidewalk_def spec_left_cycleway_def
  spec_right_cycleway_def

lemma py_int_error: "py_int ip s = Inl e \<Longrightarrow> e = ValueError"
  by (auto simp: py_int_def Let_def split: prod.splits option.splits if_splits)

lemma scan_digits_zeros:
  "scan_digits (replicate k CHR ''0'') False 0 d = Some (0, d + k, [])"
  by (induction k arbitrary: d) (simp_all add: digit_value_def)

lemma py_int_zeros:
  assumes "0 < k"
  shows "py_int ip (replicate k CHR ''0'') =
     (if digits_exceed ip k then Inl ValueError else Inr 0)"
proof -
  from assms obtain j where k: "k = Suc j"
    by (cases k) simp_all
  have "dropWhile py_isspace (replicate k CHR ''0'') = replicate k CHR ''0''"
    by (simp add: dropWhile_replicate py_isspace_def)
  moreover have "strip_sign (replicate k CHR ''0'') = (False, replicate k CHR ''0'')"
    unfolding k by (simp add: strip_sign_def)
  moreover have "take 1 (replicate k CHR ''0'') \<noteq> ''_''"
    unfolding k by simp
  ultimately show ?thesis
    using assms by (simp add: py_int_def scan_digits_zeros)
qed

lemma concat_replicate_single: "concat (replicate k [x]) = replicate k x"
  by (induction k) simp_all

lemma list_mul_single:
  assumes "list_mul ip [x] n = Inr ms"
  shows "ms = replicate (nat n) x"
proof (cases "nat n = 0")
  case True
  with assms show ?thesis
    by (simp add: list_mul_def split: if_splits)
next
  case False
  with assms show ?thesis
    by (simp add: list_mul_def Let_def concat_replicate_single split: if_splits)
qed

lemma list_mul_error:
  "list_mul ip xs n = Inl e \<Longrightarrow> e = OverflowError \<or> e = MemoryError"
  by (auto simp: list_mul_def Let_def split: if_splits)


lemma list_mul_negative:
  assumes "- maxsize ip - 1 \<le> n" and "n < 0"
  shows "list_mul ip xs n = Inr []"
  using assms by (simp add: list_mul_def)

lemma list_mul_fits:
  assumes "0 \<le> n" and "n \<le> maxsize ip" and "nat n \<le> capacity ip"
  shows "list_mul ip [x] n = Inr (replicate (nat n) x)"
proof (cases "n = 0")
  case True
  with assms show ?thesis
    by (simp add: list_mul_def)
next
  case False
  with assms have pos: "0 < n" by simp
  with assms have "0 < maxsize ip div n"
    by (simp add: pos_imp_zdiv_pos_iff)
  then have "1 \<le> maxsize ip div n"
    by simp
  with pos assms show ?thesis
    by (simp add: list_mul_def Let_def concat_replicate_single)
qed


lemma lanes_of_type_append [simp]:
  "lanes_of_type ty (xs @ ys) = lanes_of_type ty xs @ lanes_of_type ty ys"
  by (simp add: lanes_of_type_def)

lemma lanes_of_type_replicate:
  "lanes_of_type ty (replicate k (Lane ty' d)) = (if ty = ty' then replicate k (Lane ty' d) else [])"
  by (induction k) (auto simp: lanes_of_type_def)

subsection \<open>The statements of the body\<close>

lemma driveway_rule_skip:
  "\<not> (tags (self f) ''lanes'' \<noteq> None \<and> tags (self f) ''oneway'' = Some ''yes'') \<Longrightarrow>
     driveway_rule ip f = (None, f)"
  by (auto simp: driveway_rule_def contains_def)

lemma driveway_rule_fire:
  "tags (self f) ''lanes'' = Some v \<Longrightarrow> tags (self f) ''oneway'' = Some ''yes'' \<Longrightarrow>
     driveway_rule ip f =
       (case py_int ip v of
          Inl e \<Rightarrow> (Some e, f)
        | Inr n \<Rightarrow>
            (case list_mul ip [Lane DRIVEWAY FORWARD] n of
               Inl e \<Rightarrow> (Some e, f)
             | Inr ms \<Rightarrow> (None, f\<lparr>main_lanes := ms\<rparr>)))"
  by (simp add: driveway_rule_def contains_def getitem_def)

lemma driveway_rule_self: "self (snd (driveway_rule ip f)) = self f"
  by (simp add: driveway_rule_def split: sum.splits)

lemma sidewalk_rule_self: "self (sidewalk_rule f) = self f"
  by (simp add: sidewalk_rule_def)

lemma cycleway_rule_self: "self (cycleway_rule f) = self f"
  by (simp add: cycleway_rule_def)

lemma body_on_self: "self (snd (body_on ip f)) = self f"
proof (cases "driveway_rule ip f")
  case (Pair e f1)
  with driveway_rule_self [of ip f] have "self f1 = self f" by simp
  with Pair show ?thesis
    by (cases e) (simp_all add: body_on_def sidewalk_rule_self cycleway_rule_self)
qed

lemma driveway_rule_cycleway_right:
  "cycleway_right (snd (driveway_rule ip f)) = cycleway_right f"
  by (simp add: driveway_rule_def split: sum.splits)

lemma body_on_cycleway_right: "cycleway_right (snd (body_on ip f)) = cycleway_right f"
proof (cases "driveway_rule ip f")
  case (Pair e f1)
  with driveway_rule_cycleway_right [of ip f] have "cycleway_right f1 = cycleway_right f"
    by simp
  with Pair show ?thesis
    by (cases e) (simp_all add: body_on_def sidewalk_rule_def cycleway_rule_def)
qed

lemma body_on_skip:
  assumes "\<not> (tags r ''lanes'' \<noteq> None \<and> tags r ''oneway'' = Some ''yes'')"
  shows "body_on ip (enter r) = (None, cycleway_rule (sidewalk_rule (enter r)))"
proof -
  have "driveway_rule ip (enter r) = (None, enter r)"
    using assms by (intro driveway_rule_skip) (simp add: enter_def)
  then show ?thesis by (simp add: body_on_def)
qed

lemma body_on_fire:
  assumes "tags r ''lanes'' = Some v" and "tags r ''oneway'' = Some ''yes''"
  shows "body_on ip (enter r) =
     (case py_int ip v of
        Inl e \<Rightarrow> (Some e, enter r)
      | Inr n \<Rightarrow>
          (case list_mul ip [Lane DRIVEWAY FORWARD] n of
             Inl e \<Rightarrow> (Some e, enter r)
           | Inr ms \<Rightarrow>
               (None, cycleway_rule (sidewalk_rule ((enter r)\<lparr>main_lanes := ms\<rparr>)))))"
proof -
  have "driveway_rule ip (enter r) =
       (case py_int ip v of
          Inl e \<Rightarrow> (Some e, enter r)
        | Inr n \<Rightarrow>
            (case list_mul ip [Lane DRIVEWAY FORWARD] n of
               Inl e \<Rightarrow> (Some e, enter r)
             | Inr ms \<Rightarrow> (None, (enter r)\<lparr>main_lanes := ms\<rparr>)))"
    using assms by (intro driveway_rule_fire) (simp_all add: enter_def)
  then show ?thesis by (simp add: body_on_def split: sum.splits)
qed

lemma rules_frame:
  assumes "self g = r" and "sidewalks_left g = []" and "sidewalks_right g = []"
    and "cycleway_left g = []" and "cycleway_right g = []"
  shows "sidewalks_left (cycleway_rule (sidewalk_rule g)) = spec_left_sidewalk (tags r)"
    and "cycleway_left (cycleway_rule (sidewalk_rule g)) = spec_left_cycleway (tags r)"
    and "main_lanes (cycleway_rule (sidewalk_rule g)) = main_lanes g"
    and "cycleway_right (cycleway_rule (sidewalk_rule g)) = spec_right_cycleway (tags r)"
    and "sidewalks_right (cycleway_rule (sidewalk_rule g)) = spec_right_sidewalk (tags r)"
  using assms by (simp_all add: cycleway_rule_def sidewalk_rule_def spec_rule_unfold)

lemma assemble_rules:
  assumes "self g = r" and "sidewalks_left g = []" and "sidewalks_right g = []"
    and "cycleway_left g = []" and "cycleway_right g = []"
  shows "assemble (cycleway_rule (sidewalk_rule g)) =
     spec_left_sidewalk (tags r) @ spec_left_cycleway (tags r) @ main_lanes g @
     spec_right_cycleway (tags r) @ spec_right_sidewalk (tags r)"
  unfolding assemble_def by (simp add: rules_frame [OF assms])

subsection \<open>A call on any interpreter\<close>

lemma parse_on_skip:
  assumes "\<not> (tags r ''lanes'' \<noteq> None \<and> tags r ''oneway'' = Some ''yes'')"
  shows "parse_on ip r =
     Inr (spec_left_sidewalk (tags r) @ spec_left_cycleway (tags r) @
          spec_right_cycleway (tags r) @ spec_right_sidewalk (tags r))"
proof -
  have "parse_on ip r = Inr (assemble (cycleway_rule (sidewalk_rule (enter r))))"
    unfolding parse_on_def parse_run_on_def body_on_skip [OF assms] by simp
  also have "assemble (cycleway_rule (sidewalk_rule (enter r))) =
     spec_left_sidewalk (tags r) @ spec_left_cycleway (tags r) @ main_lanes (enter r) @
     spec_right_cycleway (tags r) @ spec_right_sidewalk (tags r)"
    by (rule assemble_rules) (simp_all add: enter_def)
  finally show ?thesis
    by (simp add: enter_def)
qed

lemma parse_on_fire:
  assumes "tags r ''lanes'' = Some v" and "tags r ''oneway'' = Some ''yes''"
  shows "parse_on ip r =
     (case py_int ip v of
        Inl e \<Rightarrow> Inl e
      | Inr n \<Rightarrow>
          (case list_mul ip [Lane DRIVEWAY FORWARD] n of
             Inl e \<Rightarrow> Inl e
           | Inr ms \<Rightarrow>
               Inr (spec_left_sidewalk (tags r) @ spec_left_cycleway (tags r) @ ms @
                    spec_right_cycleway (tags r) @ spec_right_sidewalk (tags r))))"
proof -
  have around: "assemble (cycleway_rule (sidewalk_rule ((enter r)\<lparr>main_lanes := ms\<rparr>))) =
     spec_left_sidewalk (tags r) @ spec_left_cycleway (tags r) @ ms @
     spec_right_cycleway (tags r) @ spec_right_sidewalk (tags r)" for ms
    by (simp add: assemble_rules [where r = r] enter_def)
  show ?thesis
    unfolding parse_on_def parse_run_on_def body_on_fire [OF assms]
    by (simp add: around split: sum.splits)
qed

lemma parse_on_returns:
  assumes "tags r ''lanes'' = Some v" and "tags r ''oneway'' = Some ''yes''"
    and "py_int ip v = Inr n" and "list_mul ip [Lane DRIVEWAY FORWARD] n = Inr ms"
  shows "parse_on ip r =
     Inr (spec_left_sidewalk (tags r) @ spec_left_cycleway (tags r) @ ms @
          spec_right_cycleway (tags r) @ spec_right_sidewalk (tags r))"
  by (simp add: parse_on_fire [OF assms(1,2)] assms(3,4))


lemma body_on_frame:
  assumes "body_on ip (enter r) = (None, f)"
  shows "sidewalks_left f = spec_left_sidewalk (tags r)"
    and "cycleway_left f = spec_left_cycleway (tags r)"
    and "\<exists>k. main_lanes f = replicate k (Lane DRIVEWAY FORWARD)"
    and "cycleway_right f = spec_right_cycleway (tags r)"
    and "sidewalks_right f = spec_right_sidewalk (tags r)"
proof -
  have "\<exists>g k. f = cycleway_rule (sidewalk_rule g) \<and> self g = r \<and> sidewalks_left g = [] \<and>
      sidewalks_right g = [] \<and> cycleway_left g = [] \<and> cycleway_right g = [] \<and>
      main_lanes g = replicate k (Lane DRIVEWAY FORWARD)"
  proof (cases "tags r ''lanes'' \<noteq> None \<and> tags r ''oneway'' = Some ''yes''")
    case False
    with assms have "f = cycleway_rule (sidewalk_rule (enter r))"
      by (simp add: body_on_skip)
    moreover have "main_lanes (enter r) = replicate 0 (Lane DRIVEWAY FORWARD)"
      by (simp add: enter_def)
    ultimately show ?thesis
      by (intro exI [of _ "enter r"] exI [of _ 0]) (simp add: enter_def)
  next
    case True
    then obtain v where v: "tags r ''lanes'' = Some v" and ow: "tags r ''oneway'' = Some ''yes''"
      by auto
    from assms body_on_fire [OF v ow, of ip] obtain n ms where
      ms: "list_mul ip [Lane DRIVEWAY FORWARD] n = Inr ms"
      and f: "f = cycleway_rule (sidewalk_rule ((enter r)\<lparr>main_lanes := ms\<rparr>))"
      by (auto split: sum.splits)
    from ms have "ms = replicate (nat n) (Lane DRIVEWAY FORWARD)"
      by (rule list_mul_single)
    with f show ?thesis
      by (intro exI [of _ "(enter r)\<lparr>main_lanes := ms\<rparr>"] exI [of _ "nat n"])
        (simp add: enter_def)
  qed
  then obtain g k where f: "f = cycleway_rule (sidewalk_rule g)"
    and g: "self g = r" "sidewalks_left g = []" "sidewalks_right g = []"
      "cycleway_left g = []" "cycleway_right g = []"
    and k: "main_lanes g = replicate k (Lane DRIVEWAY FORWARD)"
    by blast
  show "sidewalks_left f = spec_left_sidewalk (tags r)"
    and "cycleway_left f = spec_left_cycleway (tags r)"
    and "cycleway_right f = spec_right_cycleway (tags r)"
    and "sidewalks_right f = spec_right_sidewalk (tags r)"
    unfolding f by (simp_all add: rules_frame [OF g])
  have "main_lanes f = replicate k (Lane DRIVEWAY FORWARD)"
    unfolding f by (simp add: rules_frame [OF g] k)
  then show "\<exists>k. main_lanes f = replicate k (Lane DRIVEWAY FORWARD)" ..
qed

lemma parse_on_frame:
  assumes "parse_on ip r = Inr ls"
  shows "\<exists>f. body_on ip (enter r) = (None, f) \<and> ls = assemble f"
proof (cases "body_on ip (enter r)")
  case (Pair e f)
  with assms show ?thesis
    by (cases e) (auto simp: parse_on_def parse_run_on_def)
qed

lemma parse_run_on_road: "snd (parse_run_on ip r) = r"
proof -
  have "self (snd (body_on ip (enter r))) = r"
    by (simp add: body_on_self enter_def)
  then show ?thesis
    by (cases "body_on ip (enter r)") (auto simp: parse_run_on_def split: option.splits)
qed



subsection \<open>A call on the interpreter cpython\<close>

lemma parse_skip:
  assumes "\<not> (tags r ''lanes'' \<noteq> None \<and> tags r ''oneway'' = Some ''yes'')"
  shows "parse r =
     Inr (spec_left_sidewalk (tags r) @ spec_left_cycleway (tags r) @
          spec_right_cycleway (tags r) @ spec_right_sidewalk (tags r))"
  unfolding parse_def using assms by (rule parse_on_skip)

lemma body_self: "self (snd (body f)) = self f"
  unfolding body_def by (rule body_on_self)

lemma body_cycleway_right: "cycleway_right (snd (body f)) = cycleway_right f"
  unfolding body_def by (rule body_on_cycleway_right)

lemma body_frame:
  assumes "body (enter r) = (None, f)"
  shows "sidewalks_left f = spec_left_sidewalk (tags r)"
    and "cycleway_left f = spec_left_cycleway (tags r)"
    and "\<exists>k. main_lanes f = replicate k (Lane DRIVEWAY FORWARD)"
    and "cycleway_right f = spec_right_cycleway (tags r)"
    and "sidewalks_right f = spec_right_sidewalk (tags r)"
  using assms unfolding body_def by (rule body_on_frame)+

lemma parse_frame:
  assumes "parse r = Inr ls"
  shows "\<exists>f. body (enter r) = (None, f) \<and> ls = assemble f"
  using assms unfolding parse_def body_def by (rule parse_on_frame)

lemma parse_shape:
  assumes "parse r = Inr ls"
  shows "\<exists>k. ls = spec_left_sidewalk (tags r) @ spec_left_cycleway (tags r) @
           replicate k (Lane DRIVEWAY FORWARD) @
           spec_right_cycleway (tags r) @ spec_right_sidewalk (tags r)"
proof -
  from assms obtain f where f: "body (enter r) = (None, f)" and ls: "ls = assemble f"
    using parse_frame by blast
  from body_frame [OF f] ls show ?thesis
    by (auto simp: assemble_def)
qed

lemma parse_run_road: "snd (parse_run r) = r"
  unfolding parse_run_def by (rule parse_run_on_road)

lemma parse_lanes_subset:
  assumes "parse r = Inr ls"
  shows "set ls \<subseteq> {Lane SIDEWALK BACKWARD, Lane CYCLEWAY FORWARD, Lane DRIVEWAY FORWARD,
     Lane SIDEWALK FORWARD}"
proof -
  from assms obtain k where
    ls: "ls = spec_left_sidewalk (tags r) @ spec_left_cycleway (tags r) @
           replicate k (Lane DRIVEWAY FORWARD) @
           spec_right_cycleway (tags r) @ spec_right_sidewalk (tags r)"
    using parse_shape by blast
  have "set (spec_left_sidewalk (tags r)) \<subseteq> {Lane SIDEWALK BACKWARD}"
    and "set (spec_left_cycleway (tags r)) \<subseteq> {Lane CYCLEWAY FORWARD}"
    and "set (replicate k (Lane DRIVEWAY FORWARD)) \<subseteq> {Lane DRIVEWAY FORWARD}"
    and "set (spec_right_cycleway (tags r)) = {}"
    and "set (spec_right_sidewalk (tags r)) \<subseteq> {Lane SIDEWALK FORWARD}"
    by (auto simp: spec_rule_unfold)
  then show ?thesis
    unfolding ls set_append by (intro Un_least) auto
qed


lemma parse_two_lanes:
  assumes "tags r ''lanes'' = Some ''2''" and "tags r ''oneway'' = Some ''yes''"
  shows "parse r =
     Inr (spec_left_sidewalk (tags r) @ spec_left_cycleway (tags r) @
          [Lane DRIVEWAY FORWARD, Lane DRIVEWAY FORWARD] @
          spec_right_cycleway (tags r) @ spec_right_sidewalk (tags r))"
proof -
  have two: "py_int cpython ''2'' = Inr 2"
    by (simp add: py_int_unfold)
  have "list_mul cpython [Lane DRIVEWAY FORWARD] 2 = Inr (replicate (nat 2) (Lane DRIVEWAY FORWARD))"
    by (rule list_mul_fits) (simp_all add: cpython_def)
  then have "list_mul cpython [Lane DRIVEWAY FORWARD] 2
      = Inr [Lane DRIVEWAY FORWARD, Lane DRIVEWAY FORWARD]"
    by (simp add: numeral_2_eq_2)
  with two show ?thesis
    unfolding parse_def by (rule parse_on_returns [OF assms])
qed

subsection \<open>Errors\<close>

text \<open>
  Claim C1 says that \<^verbatim>\<open>parse\<close> raises InvalidLaneCount if and only if \<^verbatim>\<open>lanes\<close> is
  present, \<^verbatim>\<open>oneway\<close> is \<^verbatim>\<open>"yes"\<close> and the text of \<^verbatim>\<open>lanes\<close> cannot be parsed as a
  non-negative integer. The text \<^verbatim>\<open>"-3"\<close> cannot be parsed as a non-negative integer,
  but \<^verbatim>\<open>int\<close> accepts it, and a list repeated \<open>-3\<close> times is the empty list: the call
  returns the empty sequence and raises nothing.
\<close>

theorem parse_negative_lanes_counterexample:
  "tags \<lparr>tags = [''lanes'' \<mapsto> ''-3'', ''oneway'' \<mapsto> ''yes'']\<rparr> ''lanes'' = Some ''-3'' \<and>
   tags \<lparr>tags = [''lanes'' \<mapsto> ''-3'', ''oneway'' \<mapsto> ''yes'']\<rparr> ''oneway'' = Some ''yes'' \<and>
   \<not> nonneg_int_text cpython ''-3'' \<and>
   parse \<lparr>tags = [''lanes'' \<mapsto> ''-3'', ''oneway'' \<mapsto> ''yes'']\<rparr> = Inr [] \<and>
   parse \<lparr>tags = [''lanes'' \<mapsto> ''-3'', ''oneway'' \<mapsto> ''yes'']\<rparr> \<noteq> Inl ValueError"
proof -
  let ?r = "\<lparr>tags = [''lanes'' \<mapsto> ''-3'', ''oneway'' \<mapsto> ''yes'']\<rparr>"
  have i: "py_int cpython ''-3'' = Inr (- 3)"
    by (simp add: py_int_unfold)
  then have "\<not> nonneg_int_text cpython ''-3''"
    by (simp add: nonneg_int_text_def)
  moreover have m: "list_mul cpython [Lane DRIVEWAY FORWARD] (- 3) = Inr []"
    by (rule list_mul_negative) (simp_all add: cpython_def)
  have "parse ?r = Inr []"
    unfolding parse_def
    using parse_on_returns [of ?r "''-3''" cpython "- 3" "[]"] i m
    by (simp add: spec_rule_unfold)
  ultimately show ?thesis by simp
qed

text \<open>
  Claim C1, amended. On every interpreter, \<^verbatim>\<open>parse\<close> raises \<^verbatim>\<open>ValueError\<close>, the
  exception the specification calls InvalidLaneCount, if and only if \<^verbatim>\<open>lanes\<close> is
  present, \<^verbatim>\<open>oneway\<close> is \<^verbatim>\<open>"yes"\<close> and the text of \<^verbatim>\<open>lanes\<close> cannot be parsed as an
  integer, that is, \<^verbatim>\<open>int\<close> gives no integer of either sign for it (the text is no
  integer literal, or it has more digits than the interpreter's limit). For
  \<^verbatim>\<open>lanes = "abc"\<close> and \<^verbatim>\<open>oneway = "yes"\<close> it raises \<^verbatim>\<open>ValueError\<close> and returns no
  sequence.
\<close>

theorem parse_raises_iff:
  "(parse_on ip r = Inl ValueError \<longleftrightarrow>
      (\<exists>v. tags r ''lanes'' = Some v \<and> tags r ''oneway'' = Some ''yes'' \<and>
           (\<forall>n. py_int ip v \<noteq> Inr n))) \<and>
   (tags r ''lanes'' = Some ''abc'' \<and> tags r ''oneway'' = Some ''yes'' \<longrightarrow>
      parse_on ip r = Inl ValueError)"
proof -
  have rejected: "(\<forall>n. py_int ip v \<noteq> Inr n) \<longleftrightarrow> py_int ip v = Inl ValueError" for v
  proof (cases "py_int ip v")
    case (Inl e)
    then have "e = ValueError" by (rule py_int_error)
    with Inl show ?thesis by simp
  next
    case (Inr n)
    then show ?thesis by simp
  qed
  have raised: "parse_on ip r = Inl ValueError \<longleftrightarrow>
      (\<exists>v. tags r ''lanes'' = Some v \<and> tags r ''oneway'' = Some ''yes'' \<and>
           py_int ip v = Inl ValueError)"
  proof (cases "tags r ''lanes'' \<noteq> None \<and> tags r ''oneway'' = Some ''yes''")
    case False
    then show ?thesis
      using parse_on_skip [of r ip] by auto
  next
    case True
    then obtain v where v: "tags r ''lanes'' = Some v" and ow: "tags r ''oneway'' = Some ''yes''"
      by auto
    show ?thesis
    proof (cases "py_int ip v")
      case (Inl e)
      with v ow show ?thesis
        by (simp add: parse_on_fire [OF v ow])
    next
      case (Inr n)
      have "parse_on ip r \<noteq> Inl ValueError"
      proof (cases "list_mul ip [Lane DRIVEWAY FORWARD] n")
        case (Inl e)
        then have "e = OverflowError \<or> e = MemoryError"
          by (rule list_mul_error)
        with Inl Inr show ?thesis
          by (auto simp: parse_on_fire [OF v ow])
      next
        case ms: (Inr ms)
        with Inr show ?thesis
          by (simp add: parse_on_fire [OF v ow])
      qed
      with Inr v show ?thesis by simp
    qed
  qed
  have abc: "py_int ip ''abc'' = Inl ValueError"
    by (simp add: py_int_unfold)
  show ?thesis
  proof (intro conjI impI)
    show "parse_on ip r = Inl ValueError \<longleftrightarrow>
      (\<exists>v. tags r ''lanes'' = Some v \<and> tags r ''oneway'' = Some ''yes'' \<and>
           (\<forall>n. py_int ip v \<noteq> Inr n))"
      unfolding rejected by (rule raised)
  next
    assume "tags r ''lanes'' = Some ''abc'' \<and> tags r ''oneway'' = Some ''yes''"
    with abc show "parse_on ip r = Inl ValueError"
      using raised by blast
  qed
qed

theorem parse_raises_iff_witness:
  "parse_on cpython \<lparr>tags = [''lanes'' \<mapsto> ''abc'', ''oneway'' \<mapsto> ''yes'']\<rparr> = Inl ValueError \<and>
   parse_on cpython \<lparr>tags = [''lanes'' \<mapsto> ''-3'', ''oneway'' \<mapsto> ''yes'']\<rparr> \<noteq> Inl ValueError \<and>
   parse_on cpython \<lparr>tags = [''lanes'' \<mapsto> replicate 4301 CHR ''0'', ''oneway'' \<mapsto> ''yes'']\<rparr>
     = Inl ValueError"
proof (intro conjI)
  show "parse_on cpython \<lparr>tags = [''lanes'' \<mapsto> ''abc'', ''oneway'' \<mapsto> ''yes'']\<rparr> = Inl ValueError"
    using parse_raises_iff [of cpython "\<lparr>tags = [''lanes'' \<mapsto> ''abc'', ''oneway'' \<mapsto> ''yes'']\<rparr>"]
    by simp
  have "py_int cpython ''-3'' = Inr (- 3)"
    by (simp add: py_int_unfold)
  then show "parse_on cpython \<lparr>tags = [''lanes'' \<mapsto> ''-3'', ''oneway'' \<mapsto> ''yes'']\<rparr>
      \<noteq> Inl ValueError"
    using parse_raises_iff [of cpython "\<lparr>tags = [''lanes'' \<mapsto> ''-3'', ''oneway'' \<mapsto> ''yes'']\<rparr>"]
    by simp
  have "py_int cpython (replicate 4301 CHR ''0'') = Inl ValueError"
    by (simp add: py_int_zeros digits_exceed_def cpython_def)
  then have "\<forall>n. py_int cpython (replicate 4301 CHR ''0'') \<noteq> Inr n"
    by simp
  then show "parse_on cpython
      \<lparr>tags = [''lanes'' \<mapsto> replicate 4301 CHR ''0'', ''oneway'' \<mapsto> ''yes'']\<rparr> = Inl ValueError"
    using parse_raises_iff
      [of cpython "\<lparr>tags = [''lanes'' \<mapsto> replicate 4301 CHR ''0'', ''oneway'' \<mapsto> ''yes'']\<rparr>"]
    by simp
qed

text \<open>
  Claim C6. When \<^verbatim>\<open>oneway\<close> is absent or is not \<^verbatim>\<open>"yes"\<close>, \<^verbatim>\<open>parse\<close> returns a
  sequence (it raises nothing) and the sequence holds no driveway lane, whatever the
  \<^verbatim>\<open>lanes\<close> tag is, a text that is no integer included.
\<close>

theorem parse_not_oneway:
  assumes "tags r ''oneway'' \<noteq> Some ''yes''"
  shows "\<exists>ls. parse r = Inr ls \<and> lanes_of_type DRIVEWAY ls = []"
proof -
  let ?ls = "spec_left_sidewalk (tags r) @ spec_left_cycleway (tags r) @
          spec_right_cycleway (tags r) @ spec_right_sidewalk (tags r)"
  from assms have "parse r = Inr ?ls"
    by (simp add: parse_skip)
  moreover have "lanes_of_type DRIVEWAY ?ls = []"
    by (simp add: lanes_of_type_def spec_rule_unfold)
  ultimately show ?thesis by blast
qed

theorem parse_not_oneway_witness:
  "(\<exists>ls. parse \<lparr>tags = [''lanes'' \<mapsto> ''2'']\<rparr> = Inr ls \<and> lanes_of_type DRIVEWAY ls = []) \<and>
   (\<exists>ls. parse \<lparr>tags = [''lanes'' \<mapsto> ''abc'', ''oneway'' \<mapsto> ''no'']\<rparr> = Inr ls \<and>
      lanes_of_type DRIVEWAY ls = [])"
proof
  show "\<exists>ls. parse \<lparr>tags = [''lanes'' \<mapsto> ''2'']\<rparr> = Inr ls \<and> lanes_of_type DRIVEWAY ls = []"
    by (rule parse_not_oneway) simp
  show "\<exists>ls. parse \<lparr>tags = [''lanes'' \<mapsto> ''abc'', ''oneway'' \<mapsto> ''no'']\<rparr> = Inr ls \<and>
      lanes_of_type DRIVEWAY ls = []"
    by (rule parse_not_oneway) simp
qed

subsection \<open>The cross-section\<close>

text \<open>
  Claim C2. A sequence that \<^verbatim>\<open>parse\<close> returns is the concatenation of the five local
  lists of the frame in which the body ends, in the order left sidewalk, left cycleway,
  main lanes, right cycleway, right sidewalk; the four lists beside the carriageway are
  what the specification's rules give for the tags, and the main lanes are forward
  driveway lanes. For \<^verbatim>\<open>cycleway:left = "lane"\<close>, \<^verbatim>\<open>lanes = "2"\<close>,
  \<^verbatim>\<open>oneway = "yes"\<close> and no sidewalk on both sides, the sequence is a forward cycleway
  followed by two forward driveway lanes.
\<close>

theorem parse_assembly_order:
  "(\<forall>ls. parse r = Inr ls \<longrightarrow>
      (\<exists>f. body (enter r) = (None, f) \<and>
         ls = sidewalks_left f @ cycleway_left f @ main_lanes f @ cycleway_right f @
              sidewalks_right f \<and>
         sidewalks_left f = spec_left_sidewalk (tags r) \<and>
         cycleway_left f = spec_left_cycleway (tags r) \<and>
         (\<exists>k. main_lanes f = replicate k (Lane DRIVEWAY FORWARD)) \<and>
         cycleway_right f = spec_right_cycleway (tags r) \<and>
         sidewalks_right f = spec_right_sidewalk (tags r))) \<and>
   (tags r ''cycleway:left'' = Some ''lane'' \<and> tags r ''lanes'' = Some ''2'' \<and>
    tags r ''oneway'' = Some ''yes'' \<and> tags r ''sidewalk'' \<noteq> Some ''both'' \<longrightarrow>
      parse r = Inr [Lane CYCLEWAY FORWARD, Lane DRIVEWAY FORWARD, Lane DRIVEWAY FORWARD])"
proof (intro conjI allI impI)
  fix ls
  assume "parse r = Inr ls"
  then obtain f where f: "body (enter r) = (None, f)" and ls: "ls = assemble f"
    using parse_frame by blast
  from ls have "ls = sidewalks_left f @ cycleway_left f @ main_lanes f @ cycleway_right f @
      sidewalks_right f"
    by (simp add: assemble_def)
  with f body_frame [OF f]
  show "\<exists>f. body (enter r) = (None, f) \<and>
         ls = sidewalks_left f @ cycleway_left f @ main_lanes f @ cycleway_right f @
              sidewalks_right f \<and>
         sidewalks_left f = spec_left_sidewalk (tags r) \<and>
         cycleway_left f = spec_left_cycleway (tags r) \<and>
         (\<exists>k. main_lanes f = replicate k (Lane DRIVEWAY FORWARD)) \<and>
         cycleway_right f = spec_right_cycleway (tags r) \<and>
         sidewalks_right f = spec_right_sidewalk (tags r)"
    by blast
next
  assume a: "tags r ''cycleway:left'' = Some ''lane'' \<and> tags r ''lanes'' = Some ''2'' \<and>
    tags r ''oneway'' = Some ''yes'' \<and> tags r ''sidewalk'' \<noteq> Some ''both''"
  then have "parse r =
     Inr (spec_left_sidewalk (tags r) @ spec_left_cycleway (tags r) @
          [Lane DRIVEWAY FORWARD, Lane DRIVEWAY FORWARD] @
          spec_right_cycleway (tags r) @ spec_right_sidewalk (tags r))"
    by (intro parse_two_lanes) simp_all
  with a
  show "parse r = Inr [Lane CYCLEWAY FORWARD, Lane DRIVEWAY FORWARD, Lane DRIVEWAY FORWARD]"
    by (simp add: spec_rule_unfold)
qed

theorem parse_assembly_order_witness:
  "parse \<lparr>tags = [''cycleway:left'' \<mapsto> ''lane'', ''lanes'' \<mapsto> ''2'', ''oneway'' \<mapsto> ''yes'']\<rparr>
     = Inr [Lane CYCLEWAY FORWARD, Lane DRIVEWAY FORWARD, Lane DRIVEWAY FORWARD] \<and>
   sidewalks_left (snd (body (enter
      \<lparr>tags = [''cycleway:left'' \<mapsto> ''lane'', ''lanes'' \<mapsto> ''2'', ''oneway'' \<mapsto> ''yes'']\<rparr>))) = [] \<and>
   cycleway_left (snd (body (enter
      \<lparr>tags = [''cycleway:left'' \<mapsto> ''lane'', ''lanes'' \<mapsto> ''2'', ''oneway'' \<mapsto> ''yes'']\<rparr>)))
     = [Lane CYCLEWAY FORWARD]"
proof -
  let ?r = "\<lparr>tags = [''cycleway:left'' \<mapsto> ''lane'', ''lanes'' \<mapsto> ''2'', ''oneway'' \<mapsto> ''yes'']\<rparr>"
  let ?ls = "[Lane CYCLEWAY FORWARD, Lane DRIVEWAY FORWARD, Lane DRIVEWAY FORWARD]"
  note inst = parse_assembly_order [of ?r]
  from inst have p: "parse ?r = Inr ?ls"
    by simp
  with inst obtain f where "body (enter ?r) = (None, f)"
    and "sidewalks_left f = spec_left_sidewalk (tags ?r)"
    and "cycleway_left f = spec_left_cycleway (tags ?r)"
    by blast
  then have "sidewalks_left (snd (body (enter ?r))) = []"
    and "cycleway_left (snd (body (enter ?r))) = [Lane CYCLEWAY FORWARD]"
    by (simp_all add: spec_rule_unfold)
  with p show ?thesis by simp
qed




text \<open>
  Claim C4. Let \<^verbatim>\<open>parse\<close> return a sequence. If \<^verbatim>\<open>sidewalk\<close> is \<^verbatim>\<open>"both"\<close>, the
  sequence starts with a backward sidewalk, ends with a forward sidewalk and holds no
  sidewalk in between, so that its sidewalks are exactly these two. For any other value
  of \<^verbatim>\<open>sidewalk\<close>, and when the tag is absent, the sequence holds no sidewalk.
\<close>

theorem parse_sidewalks:
  assumes "parse r = Inr ls"
  shows "(tags r ''sidewalk'' = Some ''both'' \<longrightarrow>
            (\<exists>mid. ls = Lane SIDEWALK BACKWARD # mid @ [Lane SIDEWALK FORWARD] \<and>
                   lanes_of_type SIDEWALK mid = []) \<and>
            hd ls = Lane SIDEWALK BACKWARD \<and> last ls = Lane SIDEWALK FORWARD \<and>
            lanes_of_type SIDEWALK ls = [Lane SIDEWALK BACKWARD, Lane SIDEWALK FORWARD]) \<and>
         (tags r ''sidewalk'' \<noteq> Some ''both'' \<longrightarrow> lanes_of_type SIDEWALK ls = [])"
proof -
  from assms obtain k where
    ls: "ls = spec_left_sidewalk (tags r) @ spec_left_cycleway (tags r) @
           replicate k (Lane DRIVEWAY FORWARD) @
           spec_right_cycleway (tags r) @ spec_right_sidewalk (tags r)"
    using parse_shape by blast
  let ?mid = "spec_left_cycleway (tags r) @ replicate k (Lane DRIVEWAY FORWARD)"
  have mid: "lanes_of_type SIDEWALK ?mid = []"
    by (simp add: lanes_of_type_replicate) (simp add: lanes_of_type_def spec_rule_unfold)
  show ?thesis
  proof (intro conjI impI)
    assume both: "tags r ''sidewalk'' = Some ''both''"
    with ls have eq: "ls = Lane SIDEWALK BACKWARD # ?mid @ [Lane SIDEWALK FORWARD]"
      by (simp add: spec_rule_unfold)
    with mid show "\<exists>mid. ls = Lane SIDEWALK BACKWARD # mid @ [Lane SIDEWALK FORWARD] \<and>
                   lanes_of_type SIDEWALK mid = []"
      by blast
    from eq show "hd ls = Lane SIDEWALK BACKWARD"
      by simp
    from eq show "last ls = Lane SIDEWALK FORWARD"
      by simp
    have "lanes_of_type SIDEWALK (Lane SIDEWALK BACKWARD # ?mid @ [Lane SIDEWALK FORWARD]) =
        Lane SIDEWALK BACKWARD # lanes_of_type SIDEWALK ?mid @ [Lane SIDEWALK FORWARD]"
      by (simp add: lanes_of_type_def)
    with eq mid show "lanes_of_type SIDEWALK ls = [Lane SIDEWALK BACKWARD, Lane SIDEWALK FORWARD]"
      by simp
  next
    assume "tags r ''sidewalk'' \<noteq> Some ''both''"
    with ls have "ls = ?mid"
      by (simp add: spec_rule_unfold)
    with mid show "lanes_of_type SIDEWALK ls = []"
      by simp
  qed
qed

theorem parse_sidewalks_witness:
  "parse \<lparr>tags = [''sidewalk'' \<mapsto> ''both'']\<rparr>
     = Inr [Lane SIDEWALK BACKWARD, Lane SIDEWALK FORWARD] \<and>
   lanes_of_type SIDEWALK [Lane SIDEWALK BACKWARD, Lane SIDEWALK FORWARD]
     = [Lane SIDEWALK BACKWARD, Lane SIDEWALK FORWARD] \<and>
   parse \<lparr>tags = [''sidewalk'' \<mapsto> ''left'', ''cycleway:left'' \<mapsto> ''lane'']\<rparr>
     = Inr [Lane CYCLEWAY FORWARD] \<and>
   lanes_of_type SIDEWALK [Lane CYCLEWAY FORWARD] = []"
proof -
  have both: "parse \<lparr>tags = [''sidewalk'' \<mapsto> ''both'']\<rparr>
      = Inr [Lane SIDEWALK BACKWARD, Lane SIDEWALK FORWARD]"
    by (simp add: parse_skip spec_rule_unfold)
  have left: "parse \<lparr>tags = [''sidewalk'' \<mapsto> ''left'', ''cycleway:left'' \<mapsto> ''lane'']\<rparr>
      = Inr [Lane CYCLEWAY FORWARD]"
    by (simp add: parse_skip spec_rule_unfold)
  from parse_sidewalks [OF both] parse_sidewalks [OF left] both left
  show ?thesis by simp
qed

text \<open>
  Claim C10. In a sequence that \<^verbatim>\<open>parse\<close> returns, every backward lane is a sidewalk
  and every cycleway or driveway lane is forward. The local list \<^verbatim>\<open>cycleway_right\<close>
  is empty at the end of the body of every call, so it contributes no lane.
\<close>

theorem parse_directions:
  "(\<forall>ls. parse r = Inr ls \<longrightarrow>
      (\<forall>l \<in> set ls. direction l = BACKWARD \<longrightarrow> type' l = SIDEWALK) \<and>
      (\<forall>l \<in> set ls. type' l = CYCLEWAY \<or> type' l = DRIVEWAY \<longrightarrow> direction l = FORWARD)) \<and>
   cycleway_right (snd (body (enter r))) = []"
proof (intro conjI allI impI)
  fix ls
  assume "parse r = Inr ls"
  then have sub: "set ls \<subseteq> {Lane SIDEWALK BACKWARD, Lane CYCLEWAY FORWARD,
      Lane DRIVEWAY FORWARD, Lane SIDEWALK FORWARD}"
    by (rule parse_lanes_subset)
  show "\<forall>l \<in> set ls. direction l = BACKWARD \<longrightarrow> type' l = SIDEWALK"
    using sub by auto
  show "\<forall>l \<in> set ls. type' l = CYCLEWAY \<or> type' l = DRIVEWAY \<longrightarrow> direction l = FORWARD"
    using sub by auto
next
  show "cycleway_right (snd (body (enter r))) = []"
    by (simp add: body_cycleway_right enter_def)
qed

theorem parse_directions_witness:
  "parse \<lparr>tags = [''sidewalk'' \<mapsto> ''both'', ''cycleway:left'' \<mapsto> ''lane'']\<rparr>
     = Inr [Lane SIDEWALK BACKWARD, Lane CYCLEWAY FORWARD, Lane SIDEWALK FORWARD] \<and>
   list_all (\<lambda>l. direction l \<noteq> BACKWARD \<or> type' l = SIDEWALK)
     [Lane SIDEWALK BACKWARD, Lane CYCLEWAY FORWARD, Lane SIDEWALK FORWARD]"
proof -
  let ?r = "\<lparr>tags = [''sidewalk'' \<mapsto> ''both'', ''cycleway:left'' \<mapsto> ''lane'']\<rparr>"
  let ?ls = "[Lane SIDEWALK BACKWARD, Lane CYCLEWAY FORWARD, Lane SIDEWALK FORWARD]"
  have p: "parse ?r = Inr ?ls"
    by (simp add: parse_skip spec_rule_unfold)
  with parse_directions [of ?r]
  have "\<forall>l \<in> set ?ls. direction l = BACKWARD \<longrightarrow> type' l = SIDEWALK"
    by blast
  then have "list_all (\<lambda>l. direction l \<noteq> BACKWARD \<or> type' l = SIDEWALK) ?ls"
    unfolding list_all_iff by blast
  with p show ?thesis by simp
qed

subsection \<open>Effects\<close>

text \<open>
  Claim C8. The object \<^verbatim>\<open>self\<close> in the frame in which the body ends, and so the
  \<^verbatim>\<open>Road\<close> that a call of \<^verbatim>\<open>parse\<close> leaves behind, is the one it was called on,
  whether the call returns or raises; in particular the tags are the same map, so every
  key has the value it had.
\<close>

theorem parse_leaves_road:
  "self (snd (body (enter r))) = r \<and>
   snd (parse_run r) = r \<and>
   tags (snd (parse_run r)) = tags r"
proof (intro conjI)
  have "self (enter r) = r"
    by (simp add: enter_def)
  then show "self (snd (body (enter r))) = r"
    by (simp add: body_self)
  show road: "snd (parse_run r) = r"
    by (rule parse_run_road)
  show "tags (snd (parse_run r)) = tags r"
    unfolding road ..
qed



end
